theory Spec2Isabelle
  imports Complex_Main
begin

section \<open>Eviction strategies (mem\_cache/evict\_policy.py)\<close>

text \<open>
  The strategies read attributes of a \<open>TreeNode\<close>. The class itself lives in
  \<open>radix_cache.py\<close>; the datatype below carries the attributes the strategies read:
  the two clock readings (Python floats, modelled as reals: the strategies only read and
  negate them, and float negation is exact), the integer counters, the optional workflow
  prediction, and the node's device slots together with its children, which are what a
  footprint of the node's subtree can be computed from.
\<close>

datatype tree_node = TreeNode
  (last_access_time: real)
  (creation_time: real)
  (hit_count: int)
  (priority: int)
  (workflow_eviction_value: "int option")
  (tn_value: "int list option")
  (children: "tree_node list")

text \<open>
  A key is what \<open>get_priority\<close> returns: a float, an int, or a pair
  \<open>(int, float)\<close>.
\<close>

datatype priority_key = KFloat real | KInt int | KTuple int real

datatype py_error = TypeError | AttributeError | ZeroDivisionError

text \<open>
  The strategy classes have no fields and no constructor: an object of such a class is
  determined by its class.
\<close>

datatype eviction_strategy =
    LRUStrategy | LFUStrategy | FIFOStrategy | MRUStrategy | FILOStrategy
  | PriorityStrategy | StepsToExecutionStrategy | LMUStrategy

text \<open>
  Modelled from the spec: \<open>TreeNode.get_agent_leaf_memory\<close> is called by
  \<open>LMUStrategy\<close> and is defined in \<open>radix_cache.py\<close>. The spec gives the key
  of the least-memory-usage strategy as the "aggregate resident footprint of the node's
  dependent subtree": the number of device slots held by the node and by every node below
  it.
\<close>

fun get_agent_leaf_memory :: "tree_node \<Rightarrow> nat" where
  "get_agent_leaf_memory (TreeNode la ct hc pr wv v cs) =
     (case v of None \<Rightarrow> 0 | Some xs \<Rightarrow> length xs) + sum_list (map get_agent_leaf_memory cs)"

definition LRU_get_priority :: "tree_node \<Rightarrow> priority_key" where
  "LRU_get_priority node = KFloat (last_access_time node)"

definition LFU_get_priority :: "tree_node \<Rightarrow> priority_key" where
  "LFU_get_priority node = KTuple (hit_count node) (last_access_time node)"

definition FIFO_get_priority :: "tree_node \<Rightarrow> priority_key" where
  "FIFO_get_priority node = KFloat (creation_time node)"

definition MRU_get_priority :: "tree_node \<Rightarrow> priority_key" where
  "MRU_get_priority node = KFloat (- last_access_time node)"

definition FILO_get_priority :: "tree_node \<Rightarrow> priority_key" where
  "FILO_get_priority node = KFloat (- creation_time node)"

definition Priority_get_priority :: "tree_node \<Rightarrow> priority_key" where
  "Priority_get_priority node = KTuple (priority node) (last_access_time node)"

definition StepsToExecution_get_priority :: "tree_node \<Rightarrow> priority_key" where
  "StepsToExecution_get_priority node =
     (case workflow_eviction_value node of
        None \<Rightarrow> KInt (- 9999999)
      | Some v \<Rightarrow> KInt (- v))"

definition LMU_get_priority :: "tree_node \<Rightarrow> priority_key" where
  "LMU_get_priority node = KFloat (real (get_agent_leaf_memory node))"

text \<open>Method dispatch on the strategy object.\<close>

fun get_priority :: "eviction_strategy \<Rightarrow> tree_node \<Rightarrow> priority_key" where
  "get_priority LRUStrategy node = LRU_get_priority node"
| "get_priority LFUStrategy node = LFU_get_priority node"
| "get_priority FIFOStrategy node = FIFO_get_priority node"
| "get_priority MRUStrategy node = MRU_get_priority node"
| "get_priority FILOStrategy node = FILO_get_priority node"
| "get_priority PriorityStrategy node = Priority_get_priority node"
| "get_priority StepsToExecutionStrategy node = StepsToExecution_get_priority node"
| "get_priority LMUStrategy node = LMU_get_priority node"

text \<open>
  Keys are compared the way Python compares them: numbers numerically (an int against a
  float too), tuples lexicographically (the first components decide unless they are
  equal), and a tuple against a number raises \<open>TypeError\<close>.
\<close>

fun key_lt :: "priority_key \<Rightarrow> priority_key \<Rightarrow> py_error + bool" where
  "key_lt (KFloat a) (KFloat b) = Inr (a < b)"
| "key_lt (KFloat a) (KInt b) = Inr (a < real_of_int b)"
| "key_lt (KInt a) (KFloat b) = Inr (real_of_int a < b)"
| "key_lt (KInt a) (KInt b) = Inr (a < b)"
| "key_lt (KTuple a1 a2) (KTuple b1 b2) = Inr (if a1 \<noteq> b1 then a1 < b1 else a2 < b2)"
| "key_lt (KTuple a1 a2) (KFloat b) = Inl TypeError"
| "key_lt (KTuple a1 a2) (KInt b) = Inl TypeError"
| "key_lt (KFloat a) (KTuple b1 b2) = Inl TypeError"
| "key_lt (KInt a) (KTuple b1 b2) = Inl TypeError"

fun key_le :: "priority_key \<Rightarrow> priority_key \<Rightarrow> py_error + bool" where
  "key_le (KFloat a) (KFloat b) = Inr (a \<le> b)"
| "key_le (KFloat a) (KInt b) = Inr (a \<le> real_of_int b)"
| "key_le (KInt a) (KFloat b) = Inr (real_of_int a \<le> b)"
| "key_le (KInt a) (KInt b) = Inr (a \<le> b)"
| "key_le (KTuple a1 a2) (KTuple b1 b2) = Inr (if a1 \<noteq> b1 then a1 < b1 else a2 \<le> b2)"
| "key_le (KTuple a1 a2) (KFloat b) = Inl TypeError"
| "key_le (KTuple a1 a2) (KInt b) = Inl TypeError"
| "key_le (KFloat a) (KTuple b1 b2) = Inl TypeError"
| "key_le (KInt a) (KTuple b1 b2) = Inl TypeError"

text \<open>The scalar metadata of a node, as one tuple.\<close>

definition metadata :: "tree_node \<Rightarrow> real \<times> real \<times> int \<times> int \<times> int option" where
  "metadata node =
     (last_access_time node, creation_time node, hit_count node, priority node,
      workflow_eviction_value node)"

subsection \<open>Example nodes\<close>

definition node_A :: tree_node where
  "node_A = TreeNode 1 0 5 0 None (Some [10]) []"

definition node_B :: tree_node where
  "node_B = TreeNode 2 0 1 0 None (Some [11]) []"

definition node_no_prediction :: tree_node where
  "node_no_prediction = TreeNode 3 1 0 0 None (Some [12]) []"

definition node_soon :: tree_node where
  "node_soon = TreeNode 3 1 0 0 (Some 4) (Some [13]) []"

definition node_far :: tree_node where
  "node_far = TreeNode 3 1 0 0 (Some 10000000) (Some [14]) []"

definition node_very_far :: tree_node where
  "node_very_far = TreeNode 3 1 0 0 (Some 123456789) (Some [15]) []"

definition node_small :: tree_node where
  "node_small = TreeNode 7 2 3 1 (Some 2) (Some [20]) []"

definition node_large :: tree_node where
  "node_large = TreeNode 7 2 3 1 (Some 2) (Some [21, 22]) [TreeNode 8 3 0 1 None (Some [23, 24, 25]) []]"

section \<open>Prefetch manager (managers/prefetch\_manager.py)\<close>

text \<open>
  Nodes are Python objects that the manager mutates in place, and the tree hands out
  references to them: the model keeps them in a store, addressed by reference. A node
  carries the attributes the manager reads and writes. Slot indices are lists of ints;
  an attribute that is \<open>None\<close> is \<open>None\<close> here.
\<close>

type_synonym ref = nat

type_synonym cuda_event = nat

datatype cuda_stream = DefaultStream | Stream nat

record node =
  node_id :: nat
  node_value :: "int list option"
  host_value :: "int list option"
  is_prefetching :: bool
  pending_gpu_indices :: "int list option"
  prefetch_event :: "cuda_event option"

text \<open>
  What the manager does to its collaborators is recorded in a trace: a call of the
  allocator's \<open>alloc_gpu\<close> with the number of slots asked for, a copy enqueued on
  a stream (source and destination indices), an event recorded on a stream, and the
  line printed when a node is committed.
\<close>

datatype effect =
    AllocGpu nat
  | CopyFromCpu cuda_stream "int list" "int list"
  | EventRecord cuda_event cuda_stream
  | Print nat

text \<open>
  The state the manager works on: the store of nodes, the nodes the tree enumerates
  (\<open>self.tree.get_all_nodes()\<close>), the allocator's own state (of a type the
  allocator chooses), CUDA's current stream and its counters for fresh streams and
  events, and the trace.
\<close>

record 'm world =
  heap :: "ref \<Rightarrow> node"
  tree_nodes :: "ref list"
  mem :: 'm
  current_stream :: cuda_stream
  next_stream :: nat
  next_event :: nat
  trace :: "effect list"

text \<open>
  The manager object: \<open>self.mem\<close> and \<open>self.tree\<close> refer to the allocator
  and the tree of the world; \<open>self.stream\<close> is the manager's own stream.
\<close>

record prefetch_manager =
  pm_stream :: cuda_stream

text \<open>
  \<open>__init__\<close>: \<open>torch.cuda.Stream()\<close> makes a new stream, different from the
  default stream and from every stream made before.
\<close>

definition PrefetchManager_init :: "'m world \<Rightarrow> prefetch_manager \<times> 'm world" where
  "PrefetchManager_init w =
     (\<lparr>pm_stream = Stream (next_stream w)\<rparr>, w\<lparr>next_stream := Suc (next_stream w)\<rparr>)"

text \<open>
  The body of the loop of \<open>tick\<close> for a node whose event reports completion: the
  three assignments in the order of the source, then the print.
\<close>

definition commit_node :: "node \<Rightarrow> node" where
  "commit_node n =
     (let n1 = n\<lparr>is_prefetching := False\<rparr>;
          n2 = n1\<lparr>node_value := pending_gpu_indices n1\<rparr>
      in n2\<lparr>pending_gpu_indices := None\<rparr>)"

definition commit :: "ref \<Rightarrow> 'm world \<Rightarrow> 'm world" where
  "commit r w =
     w\<lparr>heap := (heap w)(r := commit_node (heap w r)),
       trace := trace w @ [Print (node_id (heap w r))]\<rparr>"

text \<open>
  The loop over \<open>loading_nodes\<close>. \<open>query\<close> is what \<open>Event.query()\<close>
  answers for each event during this call. A node without an event
  (\<open>prefetch_event\<close> is \<open>None\<close>) makes \<open>node.prefetch_event.query()\<close> raise
  \<open>AttributeError\<close>: the loop stops there and the nodes committed before stay
  committed, so the result is the error, if any, and the world as the call leaves it.
\<close>

fun tick_loop :: "(cuda_event \<Rightarrow> bool) \<Rightarrow> ref list \<Rightarrow> 'm world \<Rightarrow> py_error option \<times> 'm world" where
  "tick_loop query [] w = (None, w)"
| "tick_loop query (r # rs) w =
     (case prefetch_event (heap w r) of
        None \<Rightarrow> (Some AttributeError, w)
      | Some ev \<Rightarrow>
          if query ev then tick_loop query rs (commit r w)
          else tick_loop query rs w)"

definition tick :: "(cuda_event \<Rightarrow> bool) \<Rightarrow> 'm world \<Rightarrow> py_error option \<times> 'm world" where
  "tick query w =
     (let loading_nodes = filter (\<lambda>n. is_prefetching (heap w n)) (tree_nodes w)
      in tick_loop query loading_nodes w)"

text \<open>
  \<open>request_prefetch\<close>. \<open>alloc_gpu\<close> is the allocator's method: from the allocator's
  state and a number of slots it gives the reserved indices, or \<open>None\<close>, and the
  allocator's new state. The \<open>with torch.cuda.stream(self.stream)\<close> block makes the
  manager's stream current for the copy and restores the previous one.
\<close>

definition request_prefetch ::
  "('m \<Rightarrow> nat \<Rightarrow> int list option \<times> 'm) \<Rightarrow> prefetch_manager \<Rightarrow> ref \<Rightarrow> 'm world \<Rightarrow> 'm world" where
  "request_prefetch alloc_gpu pm r w =
     (if node_value (heap w r) \<noteq> None then w
      else case host_value (heap w r) of
        None \<Rightarrow> w
      | Some hv \<Rightarrow>
          if is_prefetching (heap w r) then w
          else
            let needed_slots = length hv;
                res = alloc_gpu (mem w) needed_slots;
                w1 = w\<lparr>mem := snd res, trace := trace w @ [AllocGpu needed_slots]\<rparr>
            in case fst res of
                 None \<Rightarrow> w1
               | Some gpu_indices \<Rightarrow>
                   let w2 = w1\<lparr>heap := (heap w1)
                              (r := (heap w1 r)\<lparr>is_prefetching := True,
                                                pending_gpu_indices := Some gpu_indices\<rparr>)\<rparr>;
                       previous = current_stream w2;
                       w3 = w2\<lparr>current_stream := pm_stream pm\<rparr>;
                       w4 = w3\<lparr>trace := trace w3 @ [CopyFromCpu (current_stream w3) hv gpu_indices]\<rparr>;
                       w5 = w4\<lparr>current_stream := previous\<rparr>;
                       event = next_event w5;
                       w6 = w5\<lparr>next_event := Suc event\<rparr>;
                       w7 = w6\<lparr>trace := trace w6 @ [EventRecord event (pm_stream pm)]\<rparr>
                   in w7\<lparr>heap := (heap w7)(r := (heap w7 r)\<lparr>prefetch_event := Some event\<rparr>)\<rparr>)"

text \<open>
  The states the manager can bring about: starting where no node is prefetching, by
  calls of \<open>request_prefetch\<close> on any node and of \<open>tick\<close> under any answers of
  the events.
\<close>

inductive reachable ::
  "('m \<Rightarrow> nat \<Rightarrow> int list option \<times> 'm) \<Rightarrow> prefetch_manager \<Rightarrow> 'm world \<Rightarrow> bool"
  for alloc_gpu :: "'m \<Rightarrow> nat \<Rightarrow> int list option \<times> 'm" and pm :: prefetch_manager where
  start: "(\<And>r. \<not> is_prefetching (heap w r)) \<Longrightarrow> reachable alloc_gpu pm w"
| after_request: "reachable alloc_gpu pm w \<Longrightarrow> reachable alloc_gpu pm (request_prefetch alloc_gpu pm r w)"
| after_tick: "reachable alloc_gpu pm w \<Longrightarrow> reachable alloc_gpu pm (snd (tick query w))"

text \<open>
  The invariant as the spec words it: a prefetching node has no value and a non-empty
  list of pending indices.
\<close>

definition prefetching_inv_spec :: "node \<Rightarrow> bool" where
  "prefetching_inv_spec n =
     (if is_prefetching n
      then node_value n = None \<and>
           (case pending_gpu_indices n of None \<Rightarrow> False | Some p \<Rightarrow> p \<noteq> [])
      else True)"

text \<open>
  What the code keeps: a prefetching node has no value, a list of pending indices and
  an event.
\<close>

definition prefetching_inv :: "node \<Rightarrow> bool" where
  "prefetching_inv n =
     (if is_prefetching n
      then node_value n = None \<and> pending_gpu_indices n \<noteq> None \<and> prefetch_event n \<noteq> None
      else True)"

text \<open>
  With an allocator that hands out exactly as many slots as it is asked for, the
  pending list of a prefetching node is as long as the node's host list.
\<close>

definition alloc_exact :: "('m \<Rightarrow> nat \<Rightarrow> int list option \<times> 'm) \<Rightarrow> bool" where
  "alloc_exact alloc_gpu =
     (\<forall>m n. case fst (alloc_gpu m n) of None \<Rightarrow> True | Some xs \<Rightarrow> length xs = n)"

definition pending_sized :: "node \<Rightarrow> bool" where
  "pending_sized n =
     (if is_prefetching n
      then (case (pending_gpu_indices n, host_value n) of
              (Some p, Some h) \<Rightarrow> length p = length h
            | _ \<Rightarrow> False)
      else True)"

subsection \<open>An allocator and worlds for the examples\<close>

text \<open>
  An allocator over a list of free slots: it hands out the first \<open>n\<close> free slots
  when there are that many, and fails otherwise.
\<close>

definition free_list_alloc :: "int list \<Rightarrow> nat \<Rightarrow> int list option \<times> int list" where
  "free_list_alloc free n =
     (if n \<le> length free then (Some (take n free), drop n free) else (None, free))"

definition cold_node :: node where
  "cold_node = \<lparr>node_id = 0, node_value = None, host_value = None, is_prefetching = False,
                 pending_gpu_indices = None, prefetch_event = None\<rparr>"

definition host_node :: node where
  "host_node = cold_node\<lparr>node_id := 1, host_value := Some [5, 6]\<rparr>"

definition empty_host_node :: node where
  "empty_host_node = cold_node\<lparr>node_id := 2, host_value := Some []\<rparr>"

definition device_node :: node where
  "device_node = cold_node\<lparr>node_id := 3, node_value := Some [7, 8]\<rparr>"

text \<open>
  The world before the manager is made, the manager that \<open>__init__\<close> makes in
  it, and the world after that; \<open>full_world\<close> is the same with one free slot only.
\<close>

definition boot_world :: "int list world" where
  "boot_world =
     \<lparr>heap = (\<lambda>r. cold_node)(1 := host_node, 2 := empty_host_node, 3 := device_node),
      tree_nodes = [0, 1, 2, 3],
      mem = [20, 21, 22],
      current_stream = DefaultStream,
      next_stream = 0,
      next_event = 0,
      trace = []\<rparr>"

definition ex_pm :: prefetch_manager where
  "ex_pm = fst (PrefetchManager_init boot_world)"

definition ex_world :: "int list world" where
  "ex_world = snd (PrefetchManager_init boot_world)"

definition full_world :: "int list world" where
  "full_world = ex_world\<lparr>mem := [20]\<rparr>"

text \<open>
  The spec's scenario: the node with host slots 5 and 6 after \<open>request_prefetch\<close>,
  the allocator having reserved slots 20 and 21.
\<close>

definition started_world :: "int list world" where
  "started_world = request_prefetch free_list_alloc ex_pm 1 ex_world"

section \<open>Cache time series (metrics/cache\_timeseries.py)\<close>

text \<open>
  The values that the dictionaries of the API hold: ints, floats, the two dictionaries
  of the node statistics, and a nested dictionary. A dictionary is the list of its
  items in insertion order. Floats are modelled as reals: a quotient is the exact
  quotient, where Python rounds it to the nearest float.
\<close>

datatype pyval =
    PyInt int
  | PyFloat real
  | PyStrIntDict "(string \<times> int) list"
  | PyIntIntDict "(int \<times> int) list"
  | PyDict "(string \<times> pyval) list"

text \<open>Python's \<open>a / b\<close> on ints.\<close>

definition py_truediv :: "int \<Rightarrow> int \<Rightarrow> py_error + real" where
  "py_truediv a b = (if b = 0 then Inl ZeroDivisionError else Inr (real_of_int a / real_of_int b))"

text \<open>Python's \<open>round(x, 2)\<close>: to two decimals, a tie going to the even neighbour.\<close>

definition py_round2 :: "real \<Rightarrow> real" where
  "py_round2 x =
     (let y = x * 100; f = \<lfloor>y\<rfloor>; d = y - real_of_int f
      in (if d < 1 / 2 then real_of_int f
          else if 1 / 2 < d then real_of_int (f + 1)
          else if even f then real_of_int f
          else real_of_int (f + 1)) / 100)"

record NodeStats =
  node_count :: int
  leaf_count :: int
  avg_node_tokens :: real
  max_node_tokens :: int
  min_node_tokens :: int
  size_histogram :: "(string \<times> int) list"
  depth_distribution :: "(int \<times> int) list"

definition NodeStats_to_dict :: "NodeStats \<Rightarrow> (string \<times> pyval) list" where
  "NodeStats_to_dict self =
     [(''node_count'', PyInt (node_count self)),
      (''leaf_count'', PyInt (leaf_count self)),
      (''avg_node_tokens'', PyFloat (py_round2 (avg_node_tokens self))),
      (''max_node_tokens'', PyInt (max_node_tokens self)),
      (''min_node_tokens'', PyInt (min_node_tokens self)),
      (''size_histogram'', PyStrIntDict (size_histogram self)),
      (''depth_distribution'', PyIntIntDict (depth_distribution self))]"

record CacheSnapshot =
  timestamp :: real
  total_tokens :: int
  evictable_tokens :: int
  protected_tokens :: int
  pool_size :: int
  hit_tokens :: int
  requested_tokens :: int
  request_count :: int
  node_stats :: "NodeStats option"

definition CacheSnapshot_to_dict :: "CacheSnapshot \<Rightarrow> py_error + (string \<times> pyval) list" where
  "CacheSnapshot_to_dict self =
     (case (if pool_size self > 0 then py_truediv (total_tokens self) (pool_size self)
            else Inr 0) of
        Inl e \<Rightarrow> Inl e
      | Inr utilization \<Rightarrow>
          let miss_tokens = requested_tokens self - hit_tokens self;
              result =
                [(''timestamp'', PyFloat (timestamp self)),
                 (''total_tokens'', PyInt (total_tokens self)),
                 (''evictable_tokens'', PyInt (evictable_tokens self)),
                 (''protected_tokens'', PyInt (protected_tokens self)),
                 (''utilization'', PyFloat utilization),
                 (''hit_tokens'', PyInt (hit_tokens self)),
                 (''miss_tokens'', PyInt miss_tokens),
                 (''request_count'', PyInt (request_count self))]
          in Inr (case node_stats self of
                    None \<Rightarrow> result
                  | Some ns \<Rightarrow> result @ [(''node_stats'', PyDict (NodeStats_to_dict ns))]))"

text \<open>
  The tracker. The deque of snapshots is a list, the newest snapshot last; the fields
  that the source names with a leading underscore carry the prefix \<open>tracker_\<close>.
\<close>

record CacheTimeSeriesTracker =
  max_history_seconds :: real
  snapshot_interval :: real
  tracker_snapshots :: "CacheSnapshot list"
  tracker_total_requests :: int
  tracker_hit_tokens :: int
  tracker_requested_tokens :: int
  tracker_last_snapshot_time :: real

definition record_match :: "int \<Rightarrow> int \<Rightarrow> CacheTimeSeriesTracker \<Rightarrow> CacheTimeSeriesTracker" where
  "record_match matched_tokens requested self =
     self\<lparr>tracker_total_requests := tracker_total_requests self + 1,
          tracker_hit_tokens := tracker_hit_tokens self + matched_tokens,
          tracker_requested_tokens := tracker_requested_tokens self + requested\<rparr>"

definition get_stats_dict :: "CacheTimeSeriesTracker \<Rightarrow> py_error + (string \<times> pyval) list" where
  "get_stats_dict self =
     (let latest = (if tracker_snapshots self \<noteq> [] then Some (last (tracker_snapshots self))
                    else None);
          latest_total = (case latest of Some l \<Rightarrow> total_tokens l | None \<Rightarrow> 0);
          latest_evictable = (case latest of Some l \<Rightarrow> evictable_tokens l | None \<Rightarrow> 0);
          latest_protected = (case latest of Some l \<Rightarrow> protected_tokens l | None \<Rightarrow> 0);
          latest_pool = (case latest of Some l \<Rightarrow> pool_size l | None \<Rightarrow> 0)
      in case (if latest_pool > 0 then py_truediv latest_total latest_pool else Inr 0) of
           Inl e \<Rightarrow> Inl e
         | Inr utilization \<Rightarrow>
             let result =
                   [(''total_tokens'', PyInt latest_total),
                    (''evictable_tokens'', PyInt latest_evictable),
                    (''protected_tokens'', PyInt latest_protected),
                    (''utilization'', PyFloat utilization),
                    (''total_hit_tokens'', PyInt (tracker_hit_tokens self)),
                    (''total_miss_tokens'',
                       PyInt (tracker_requested_tokens self - tracker_hit_tokens self)),
                    (''total_requests'', PyInt (tracker_total_requests self))]
             in Inr (case latest of
                       None \<Rightarrow> result
                     | Some l \<Rightarrow>
                         (case node_stats l of
                            None \<Rightarrow> result
                          | Some ns \<Rightarrow> result @ [(''node_stats'', PyDict (NodeStats_to_dict ns))])))"

subsection \<open>Example snapshots and trackers\<close>

definition snapshot_empty_pool :: CacheSnapshot where
  "snapshot_empty_pool =
     \<lparr>timestamp = 10, total_tokens = 3, evictable_tokens = 2, protected_tokens = 1,
      pool_size = 0, hit_tokens = 4, requested_tokens = 9, request_count = 2,
      node_stats = None\<rparr>"

definition snapshot_quarter :: CacheSnapshot where
  "snapshot_quarter =
     \<lparr>timestamp = 15, total_tokens = 2, evictable_tokens = 1, protected_tokens = 1,
      pool_size = 8, hit_tokens = 6, requested_tokens = 16, request_count = 3,
      node_stats = Some \<lparr>node_count = 1, leaf_count = 1, avg_node_tokens = 2,
                         max_node_tokens = 2, min_node_tokens = 2,
                         size_histogram = [(''0-100'', 1), (''100-500'', 0),
                                           (''500-1000'', 0), (''1000+'', 0)],
                         depth_distribution = [(1, 1)]\<rparr>\<rparr>"

definition fresh_tracker :: CacheTimeSeriesTracker where
  "fresh_tracker =
     \<lparr>max_history_seconds = 300, snapshot_interval = 5, tracker_snapshots = [],
      tracker_total_requests = 0, tracker_hit_tokens = 0, tracker_requested_tokens = 0,
      tracker_last_snapshot_time = 0\<rparr>"

definition busy_tracker :: CacheTimeSeriesTracker where
  "busy_tracker =
     (record_match 6 16 fresh_tracker)\<lparr>tracker_snapshots := [snapshot_empty_pool, snapshot_quarter]\<rparr>"

section \<open>Properties of the eviction strategies\<close>

text \<open>
  C6. For every node, the strategies return the keys of the spec's table: LRU the last
  access time, LFU the pair of hit count and last access time, FIFO the creation time,
  MRU the negated last access time, FILO the negated creation time, and Priority the pair
  of priority and last access time.
\<close>

theorem get_priority_table:
  "get_priority LRUStrategy node = KFloat (last_access_time node)
   \<and> get_priority LFUStrategy node = KTuple (hit_count node) (last_access_time node)
   \<and> get_priority FIFOStrategy node = KFloat (creation_time node)
   \<and> get_priority MRUStrategy node = KFloat (- last_access_time node)
   \<and> get_priority FILOStrategy node = KFloat (- creation_time node)
   \<and> get_priority PriorityStrategy node = KTuple (priority node) (last_access_time node)"
  by (simp add: LRU_get_priority_def LFU_get_priority_def FIFO_get_priority_def
      MRU_get_priority_def FILO_get_priority_def Priority_get_priority_def)

theorem get_priority_table_witness:
  "get_priority LRUStrategy node_large = KFloat 7
   \<and> get_priority LFUStrategy node_large = KTuple 3 7
   \<and> get_priority FIFOStrategy node_large = KFloat 2
   \<and> get_priority MRUStrategy node_large = KFloat (- 7)
   \<and> get_priority FILOStrategy node_large = KFloat (- 2)
   \<and> get_priority PriorityStrategy node_large = KTuple 1 7"
  using get_priority_table [of node_large] by (simp add: node_large_def)

text \<open>
  C7. Under LFU, a node with strictly fewer hits has a strictly smaller key than a node
  with more hits, whatever their last access times are; the comparison raises no error.
  The scenario of the spec is the witness: B (last access 2, one hit) is ranked before
  A (last access 1, five hits).
\<close>

theorem lfu_fewer_hits_smaller_key:
  assumes "hit_count b < hit_count a"
  shows "key_lt (get_priority LFUStrategy b) (get_priority LFUStrategy a) = Inr True
         \<and> key_lt (get_priority LFUStrategy a) (get_priority LFUStrategy b) = Inr False"
  using assms by (simp add: LFU_get_priority_def)

theorem lfu_fewer_hits_smaller_key_witness:
  "hit_count node_B < hit_count node_A
   \<and> last_access_time node_A < last_access_time node_B
   \<and> key_lt (get_priority LFUStrategy node_B) (get_priority LFUStrategy node_A) = Inr True
   \<and> key_lt (get_priority LFUStrategy node_A) (get_priority LFUStrategy node_B) = Inr False"
proof -
  have h: "hit_count node_B < hit_count node_A"
    by (simp add: node_A_def node_B_def)
  have t: "last_access_time node_A < last_access_time node_B"
    by (simp add: node_A_def node_B_def)
  from h t lfu_fewer_hits_smaller_key [OF h] show ?thesis by simp
qed

text \<open>
  C8, as the spec states it: under the steps-to-execution strategy the key of a node
  without a prediction is at most the key of every node with one. The sentinel is the
  finite number -9999999, so a node whose prediction exceeds 9999999 has a smaller key
  still: the statement fails for a prediction of 10000000.
\<close>

theorem steps_sentinel_not_least_counterexample:
  "workflow_eviction_value node_no_prediction = None
   \<and> workflow_eviction_value node_far = Some 10000000
   \<and> key_le (get_priority StepsToExecutionStrategy node_no_prediction)
        (get_priority StepsToExecutionStrategy node_far) = Inr False
   \<and> key_lt (get_priority StepsToExecutionStrategy node_far)
        (get_priority StepsToExecutionStrategy node_no_prediction) = Inr True"
  by (simp add: node_no_prediction_def node_far_def StepsToExecution_get_priority_def)

text \<open>
  C8, amended: a node without a prediction gets the key -9999999 and a node with the
  prediction \<open>v\<close> gets the key \<open>-v\<close>. The key of the node without a prediction
  is at most the key of the node with one exactly when \<open>v\<close> is not above 9999999:
  it is at most the key of every node whose prediction is at most 9999999, and every node
  whose prediction is above 9999999 has a key strictly below the sentinel. The
  comparisons raise no error.
\<close>

theorem steps_sentinel_least_up_to_bound:
  assumes "workflow_eviction_value n = None"
    and "workflow_eviction_value m = Some v"
  shows "get_priority StepsToExecutionStrategy n = KInt (- 9999999)
         \<and> get_priority StepsToExecutionStrategy m = KInt (- v)
         \<and> key_le (get_priority StepsToExecutionStrategy n)
              (get_priority StepsToExecutionStrategy m) = Inr (v \<le> 9999999)
         \<and> key_lt (get_priority StepsToExecutionStrategy m)
              (get_priority StepsToExecutionStrategy n) = Inr (9999999 < v)
         \<and> (v \<le> 9999999 \<longrightarrow>
              key_le (get_priority StepsToExecutionStrategy n)
                (get_priority StepsToExecutionStrategy m) = Inr True)
         \<and> (9999999 < v \<longrightarrow>
              key_lt (get_priority StepsToExecutionStrategy m)
                (get_priority StepsToExecutionStrategy n) = Inr True
              \<and> key_le (get_priority StepsToExecutionStrategy n)
                (get_priority StepsToExecutionStrategy m) = Inr False)"
  using assms by (simp add: StepsToExecution_get_priority_def)

theorem steps_sentinel_least_up_to_bound_witness:
  "workflow_eviction_value node_no_prediction = None
   \<and> workflow_eviction_value node_soon = Some 4
   \<and> workflow_eviction_value node_very_far = Some 123456789
   \<and> get_priority StepsToExecutionStrategy node_no_prediction = KInt (- 9999999)
   \<and> get_priority StepsToExecutionStrategy node_soon = KInt (- 4)
   \<and> get_priority StepsToExecutionStrategy node_very_far = KInt (- 123456789)
   \<and> key_le (get_priority StepsToExecutionStrategy node_no_prediction)
        (get_priority StepsToExecutionStrategy node_soon) = Inr True
   \<and> key_lt (get_priority StepsToExecutionStrategy node_very_far)
        (get_priority StepsToExecutionStrategy node_no_prediction) = Inr True
   \<and> key_le (get_priority StepsToExecutionStrategy node_no_prediction)
        (get_priority StepsToExecutionStrategy node_very_far) = Inr False"
proof -
  have a: "workflow_eviction_value node_no_prediction = None"
    by (simp add: node_no_prediction_def)
  have b: "workflow_eviction_value node_soon = Some 4"
    by (simp add: node_soon_def)
  have c: "workflow_eviction_value node_very_far = Some 123456789"
    by (simp add: node_very_far_def)
  from a b c steps_sentinel_least_up_to_bound [OF a b]
    steps_sentinel_least_up_to_bound [OF a c]
  show ?thesis by simp
qed

text \<open>
  C9, as the spec states it: for every strategy, the least-memory-usage strategy
  included, two nodes with equal metadata fields get equal keys. The key of the
  least-memory-usage strategy is the footprint of the node's subtree: two nodes with the
  same metadata and different subtrees get different keys.
\<close>

theorem lmu_key_not_metadata_counterexample:
  "metadata node_small = metadata node_large
   \<and> get_priority LMUStrategy node_small = KFloat 1
   \<and> get_priority LMUStrategy node_large = KFloat 5
   \<and> get_priority LMUStrategy node_small \<noteq> get_priority LMUStrategy node_large"
  by (simp add: metadata_def node_small_def node_large_def LMU_get_priority_def)

lemmas get_priority_defs = LRU_get_priority_def LFU_get_priority_def FIFO_get_priority_def
  MRU_get_priority_def FILO_get_priority_def Priority_get_priority_def
  StepsToExecution_get_priority_def LMU_get_priority_def

text \<open>
  C9, amended. Each \<open>get_priority\<close> is a single \<open>return\<close> of an expression
  over attributes of the node, with no assignment: it is a function of the strategy and
  the node, so it changes neither and gives equal keys for equal nodes. For the seven
  strategies other than the least-memory-usage one the key depends on the metadata
  fields only (last access time, creation time, hit count, priority and workflow
  prediction): nodes that agree on them get equal keys, whatever their slots and
  children. The key of the least-memory-usage strategy depends on the node's slots and
  children only, not on its metadata fields.
\<close>

theorem get_priority_function_of_metadata:
  "(s \<noteq> LMUStrategy \<longrightarrow> metadata n = metadata n' \<longrightarrow> get_priority s n = get_priority s n')
   \<and> (tn_value n = tn_value n' \<longrightarrow> children n = children n' \<longrightarrow>
        get_priority LMUStrategy n = get_priority LMUStrategy n')"
proof -
  have a: "s \<noteq> LMUStrategy \<Longrightarrow> metadata n = metadata n' \<Longrightarrow> get_priority s n = get_priority s n'"
    by (cases s) (simp_all add: metadata_def get_priority_defs)
  have b: "tn_value n = tn_value n' \<Longrightarrow> children n = children n' \<Longrightarrow>
      get_priority LMUStrategy n = get_priority LMUStrategy n'"
    by (cases n; cases n') (simp add: LMU_get_priority_def)
  show ?thesis using a b by blast
qed

theorem get_priority_function_of_metadata_witness:
  "metadata node_small = metadata node_large
   \<and> tn_value node_small \<noteq> tn_value node_large
   \<and> get_priority LFUStrategy node_small = get_priority LFUStrategy node_large
   \<and> get_priority StepsToExecutionStrategy node_small = get_priority StepsToExecutionStrategy node_large
   \<and> tn_value node_A = tn_value (TreeNode 9 9 9 9 (Some 9) (Some [10]) [])
   \<and> get_priority LMUStrategy node_A = get_priority LMUStrategy (TreeNode 9 9 9 9 (Some 9) (Some [10]) [])"
proof -
  have m: "metadata node_small = metadata node_large"
    by (simp add: metadata_def node_small_def node_large_def)
  have d: "tn_value node_small \<noteq> tn_value node_large"
    by (simp add: node_small_def node_large_def)
  have v: "tn_value node_A = tn_value (TreeNode 9 9 9 9 (Some 9) (Some [10]) [])"
    and c: "children node_A = children (TreeNode 9 9 9 9 (Some 9) (Some [10]) [])"
    by (simp_all add: node_A_def)
  from get_priority_function_of_metadata [of LFUStrategy node_small node_large]
    get_priority_function_of_metadata [of StepsToExecutionStrategy node_small node_large]
    get_priority_function_of_metadata [of LRUStrategy node_A "TreeNode 9 9 9 9 (Some 9) (Some [10]) []"]
    m d v c
  show ?thesis by simp
qed

section \<open>Properties of the prefetch manager\<close>

subsection \<open>The loop of tick\<close>

lemma commit_node_simps:
  "is_prefetching (commit_node n) = False"
  "node_value (commit_node n) = pending_gpu_indices n"
  "pending_gpu_indices (commit_node n) = None"
  "prefetch_event (commit_node n) = prefetch_event n"
  "host_value (commit_node n) = host_value n"
  "node_id (commit_node n) = node_id n"
  by (simp_all add: commit_node_def)

lemma commit_fields:
  "heap (commit r w) = (heap w)(r := commit_node (heap w r))"
  "tree_nodes (commit r w) = tree_nodes w"
  "mem (commit r w) = mem w"
  "current_stream (commit r w) = current_stream w"
  "next_stream (commit r w) = next_stream w"
  "next_event (commit r w) = next_event w"
  "trace (commit r w) = trace w @ [Print (node_id (heap w r))]"
  by (simp_all add: commit_def)

lemma tick_loop_frame:
  "tree_nodes (snd (tick_loop q rs w)) = tree_nodes w
   \<and> mem (snd (tick_loop q rs w)) = mem w
   \<and> current_stream (snd (tick_loop q rs w)) = current_stream w
   \<and> next_stream (snd (tick_loop q rs w)) = next_stream w
   \<and> next_event (snd (tick_loop q rs w)) = next_event w"
  by (induction rs arbitrary: w) (auto simp: commit_fields split: option.splits)

lemma tick_loop_heap_other:
  "r \<notin> set rs \<Longrightarrow> heap (snd (tick_loop q rs w)) r = heap w r"
  by (induction rs arbitrary: w) (auto simp: commit_fields split: option.splits)

lemma tick_loop_pointwise:
  assumes step: "\<And>n. P n \<Longrightarrow> P (commit_node n)"
  shows "(\<And>r. P (heap w r)) \<Longrightarrow> P (heap (snd (tick_loop q rs w)) r)"
proof (induction rs arbitrary: w)
  case Nil
  then show ?case by simp
next
  case (Cons a rs)
  show ?case
  proof (cases "prefetch_event (heap w a)")
    case None
    then show ?thesis using Cons.prems by simp
  next
    case (Some ev)
    show ?thesis
    proof (cases "q ev")
      case True
      have "\<And>r'. P (heap (commit a w) r')"
        using Cons.prems step by (simp add: commit_fields)
      then have "P (heap (snd (tick_loop q rs (commit a w))) r)"
        by (rule Cons.IH)
      then show ?thesis using Some True by simp
    next
      case False
      then show ?thesis using Some Cons by simp
    qed
  qed
qed

lemma tick_loop_unsignaled:
  "prefetch_event (heap w r) = Some ev \<Longrightarrow> \<not> q ev \<Longrightarrow>
   heap (snd (tick_loop q rs w)) r = heap w r"
proof (induction rs arbitrary: w)
  case Nil
  then show ?case by simp
next
  case (Cons a rs)
  show ?case
  proof (cases "prefetch_event (heap w a)")
    case None
    then show ?thesis by simp
  next
    case (Some ev')
    show ?thesis
    proof (cases "q ev'")
      case True
      then have ne: "a \<noteq> r" using Some Cons.prems by auto
      then have "prefetch_event (heap (commit a w) r) = Some ev"
        using Cons.prems by (simp add: commit_fields)
      then have "heap (snd (tick_loop q rs (commit a w))) r = heap (commit a w) r"
        using Cons.prems(2) by (rule Cons.IH)
      then show ?thesis using Some True ne by (simp add: commit_fields)
    next
      case False
      then show ?thesis using Some Cons by simp
    qed
  qed
qed

lemma tick_loop_commits:
  "distinct rs \<Longrightarrow> (\<And>r. r \<in> set rs \<Longrightarrow> prefetch_event (heap w r) \<noteq> None) \<Longrightarrow>
   fst (tick_loop q rs w) = None
   \<and> (\<forall>r\<in>set rs. heap (snd (tick_loop q rs w)) r =
        (if q (the (prefetch_event (heap w r))) then commit_node (heap w r) else heap w r))"
proof (induction rs arbitrary: w)
  case Nil
  then show ?case by simp
next
  case (Cons a rs)
  from Cons.prems(2) [of a] obtain ev where ev: "prefetch_event (heap w a) = Some ev"
    by auto
  have d: "distinct rs" and na: "a \<notin> set rs" using Cons.prems(1) by auto
  show ?case
  proof (cases "q ev")
    case True
    have pe: "\<And>r. r \<in> set rs \<Longrightarrow> prefetch_event (heap (commit a w) r) \<noteq> None"
      using Cons.prems(2) na by (auto simp: commit_fields)
    note ih = Cons.IH [OF d pe]
    have rest: "\<And>r. r \<in> set rs \<Longrightarrow> heap (commit a w) r = heap w r"
      using na by (auto simp: commit_fields)
    have here: "heap (snd (tick_loop q rs (commit a w))) a = commit_node (heap w a)"
      using na by (simp add: tick_loop_heap_other commit_fields)
    show ?thesis using ih ev True rest here by simp
  next
    case False
    have pe: "\<And>r. r \<in> set rs \<Longrightarrow> prefetch_event (heap w r) \<noteq> None"
      using Cons.prems(2) by auto
    note ih = Cons.IH [OF d pe]
    have here: "heap (snd (tick_loop q rs w)) a = heap w a"
      using na by (simp add: tick_loop_heap_other)
    show ?thesis using ih ev False here by simp
  qed
qed

subsection \<open>The invariant of prefetching nodes\<close>

lemma request_prefetch_keeps_inv:
  assumes inv: "\<And>r'. prefetching_inv (heap w r')"
  shows "prefetching_inv (heap (request_prefetch alloc_gpu pm r w) r')"
  using inv [of r'] inv [of r]
  by (auto simp: request_prefetch_def Let_def prefetching_inv_def split: option.splits if_splits)

lemma request_prefetch_keeps_sized:
  "alloc_exact alloc_gpu \<Longrightarrow> (\<And>r'. pending_sized (heap w r')) \<Longrightarrow>
   pending_sized (heap (request_prefetch alloc_gpu pm r w) r')"
proof -
  assume ex: "alloc_exact alloc_gpu" and inv: "\<And>r'. pending_sized (heap w r')"
  have len: "\<And>m n xs. fst (alloc_gpu m n) = Some xs \<Longrightarrow> length xs = n"
  proof -
    fix m n xs assume a: "fst (alloc_gpu m n) = Some xs"
    from ex have "case fst (alloc_gpu m n) of None \<Rightarrow> True | Some xs \<Rightarrow> length xs = n"
      unfolding alloc_exact_def by blast
    with a show "length xs = n" by simp
  qed
  show ?thesis
    using inv [of r'] inv [of r]
    by (auto simp: request_prefetch_def Let_def pending_sized_def dest: len
        split: option.splits if_splits)
qed

lemma tick_keeps_inv:
  assumes inv: "\<And>r'. prefetching_inv (heap w r')"
  shows "prefetching_inv (heap (snd (tick query w)) r)"
  unfolding tick_def Let_def
proof (rule tick_loop_pointwise)
  show "\<And>n. prefetching_inv n \<Longrightarrow> prefetching_inv (commit_node n)"
    by (simp add: prefetching_inv_def commit_node_simps)
  show "\<And>r. prefetching_inv (heap w r)" by (rule inv)
qed

lemma tick_keeps_sized:
  assumes inv: "\<And>r'. pending_sized (heap w r')"
  shows "pending_sized (heap (snd (tick query w)) r)"
  unfolding tick_def Let_def
proof (rule tick_loop_pointwise)
  show "\<And>n. pending_sized n \<Longrightarrow> pending_sized (commit_node n)"
    by (simp add: pending_sized_def commit_node_simps)
  show "\<And>r. pending_sized (heap w r)" by (rule inv)
qed

lemma reachable_inv:
  "reachable alloc_gpu pm w \<Longrightarrow> prefetching_inv (heap w r)"
proof (induction arbitrary: r rule: reachable.induct)
  case (start w)
  then show ?case by (simp add: prefetching_inv_def)
next
  case (after_request w r0)
  then show ?case by (simp add: request_prefetch_keeps_inv)
next
  case (after_tick w query)
  then show ?case by (simp add: tick_keeps_inv)
qed

lemma reachable_sized:
  "reachable alloc_gpu pm w \<Longrightarrow> alloc_exact alloc_gpu \<Longrightarrow> pending_sized (heap w r)"
proof (induction arbitrary: r rule: reachable.induct)
  case (start w)
  then show ?case by (simp add: pending_sized_def)
next
  case (after_request w r0)
  then show ?case by (simp add: request_prefetch_keeps_sized)
next
  case (after_tick w query)
  then show ?case by (simp add: tick_keeps_sized)
qed

lemma alloc_exact_free_list: "alloc_exact free_list_alloc"
  by (simp add: alloc_exact_def free_list_alloc_def)

lemma ex_world_start: "reachable free_list_alloc ex_pm ex_world"
  by (rule reachable.start)
    (simp add: ex_world_def boot_world_def PrefetchManager_init_def cold_node_def host_node_def
      empty_host_node_def device_node_def)

lemmas ex_defs = boot_world_def ex_world_def cold_node_def host_node_def empty_host_node_def device_node_def
  ex_pm_def PrefetchManager_init_def free_list_alloc_def full_world_def

text \<open>
  C1, as the spec states it: in every reachable state a prefetching node has no value
  and a non-empty list of pending indices. Node 2 of the example world has the empty
  host list; \<open>request_prefetch\<close> asks the allocator for zero slots, the
  allocator answers with the empty list, and the node is prefetching with an empty list
  of pending indices.
\<close>

theorem prefetching_inv_spec_counterexample:
  "reachable free_list_alloc ex_pm ex_world
   \<and> prefetching_inv_spec (heap ex_world 2)
   \<and> host_value (heap ex_world 2) = Some []
   \<and> fst (free_list_alloc (mem ex_world) 0) = Some []
   \<and> reachable free_list_alloc ex_pm (request_prefetch free_list_alloc ex_pm 2 ex_world)
   \<and> is_prefetching (heap (request_prefetch free_list_alloc ex_pm 2 ex_world) 2)
   \<and> pending_gpu_indices (heap (request_prefetch free_list_alloc ex_pm 2 ex_world) 2) = Some []
   \<and> \<not> prefetching_inv_spec (heap (request_prefetch free_list_alloc ex_pm 2 ex_world) 2)"
proof -
  have s: "reachable free_list_alloc ex_pm ex_world"
    by (rule ex_world_start)
  have t: "reachable free_list_alloc ex_pm (request_prefetch free_list_alloc ex_pm 2 ex_world)"
    using s by (rule reachable.after_request)
  show ?thesis
    using s t by (simp add: request_prefetch_def Let_def prefetching_inv_spec_def ex_defs)
qed

text \<open>
  C1, amended: in every state reachable by \<open>request_prefetch\<close> and \<open>tick\<close>
  from one where no node is prefetching, and after one more call of either, a prefetching
  node has no value, a list of pending indices (not \<open>None\<close>) and an event; with
  an allocator that hands out exactly the number of slots asked for, the pending list is
  as long as the node's host list, hence non-empty exactly when the host list is.
\<close>

theorem prefetching_invariant_reachable:
  assumes "reachable alloc_gpu pm w"
  shows "prefetching_inv (heap w r)
         \<and> prefetching_inv (heap (request_prefetch alloc_gpu pm r' w) r)
         \<and> prefetching_inv (heap (snd (tick query w)) r)
         \<and> (alloc_exact alloc_gpu \<longrightarrow>
              pending_sized (heap w r)
              \<and> pending_sized (heap (request_prefetch alloc_gpu pm r' w) r)
              \<and> pending_sized (heap (snd (tick query w)) r))"
proof -
  have a: "reachable alloc_gpu pm (request_prefetch alloc_gpu pm r' w)"
    using assms by (rule reachable.after_request)
  have b: "reachable alloc_gpu pm (snd (tick query w))"
    using assms by (rule reachable.after_tick)
  show ?thesis
    using assms a b by (simp add: reachable_inv reachable_sized)
qed

theorem prefetching_invariant_reachable_witness:
  "reachable free_list_alloc ex_pm (request_prefetch free_list_alloc ex_pm 1 ex_world)
   \<and> alloc_exact free_list_alloc
   \<and> is_prefetching (heap (request_prefetch free_list_alloc ex_pm 1 ex_world) 1)
   \<and> node_value (heap (request_prefetch free_list_alloc ex_pm 1 ex_world) 1) = None
   \<and> pending_gpu_indices (heap (request_prefetch free_list_alloc ex_pm 1 ex_world) 1) = Some [20, 21]
   \<and> prefetching_inv (heap (request_prefetch free_list_alloc ex_pm 1 ex_world) 1)
   \<and> pending_sized (heap (request_prefetch free_list_alloc ex_pm 1 ex_world) 1)"
proof -
  have s: "reachable free_list_alloc ex_pm ex_world"
    by (rule ex_world_start)
  have e: "alloc_exact free_list_alloc"
    by (rule alloc_exact_free_list)
  have v: "is_prefetching (heap (request_prefetch free_list_alloc ex_pm 1 ex_world) 1)
    \<and> node_value (heap (request_prefetch free_list_alloc ex_pm 1 ex_world) 1) = None
    \<and> pending_gpu_indices (heap (request_prefetch free_list_alloc ex_pm 1 ex_world) 1) = Some [20, 21]"
    by (simp add: request_prefetch_def Let_def ex_defs)
  from prefetching_invariant_reachable [OF s, of 1 1 "\<lambda>e. False"] e v
    reachable.after_request [OF s, of 1]
  show ?thesis by simp
qed

subsection \<open>What tick and request\_prefetch do to a node\<close>

lemma started_world_fields:
  "heap started_world =
     (heap ex_world)(1 := host_node\<lparr>is_prefetching := True,
                                      pending_gpu_indices := Some [20, 21],
                                      prefetch_event := Some 0\<rparr>)"
  "tree_nodes started_world = [0, 1, 2, 3]"
  "mem started_world = [22]"
  "trace started_world =
     [AllocGpu 2, CopyFromCpu (Stream 0) [5, 6] [20, 21], EventRecord 0 (Stream 0)]"
  by (simp_all add: started_world_def request_prefetch_def Let_def ex_defs)

text \<open>
  C2. Let the tree enumerate each of its nodes once, and let every prefetching node of
  the tree have its completion event (as every node has that \<open>request_prefetch\<close>
  made prefetching). Then \<open>tick\<close> returns without an error, and for every
  prefetching node of the tree: if its event reports completion, the node's value is the
  list of indices that was pending, the pending list is cleared and the node is no longer
  prefetching, its other attributes being as before; if the event does not report
  completion, the node is unchanged.
\<close>

theorem tick_commits_completed:
  assumes "distinct (tree_nodes w)"
    and "\<forall>n\<in>set (tree_nodes w). is_prefetching (heap w n) \<longrightarrow> prefetch_event (heap w n) \<noteq> None"
    and "r \<in> set (tree_nodes w)"
    and "is_prefetching (heap w r)"
    and "prefetch_event (heap w r) = Some ev"
  shows "fst (tick query w) = None
         \<and> (query ev \<longrightarrow>
              heap (snd (tick query w)) r =
                (heap w r)\<lparr>node_value := pending_gpu_indices (heap w r),
                           is_prefetching := False, pending_gpu_indices := None\<rparr>)
         \<and> (\<not> query ev \<longrightarrow> heap (snd (tick query w)) r = heap w r)"
proof -
  let ?rs = "filter (\<lambda>n. is_prefetching (heap w n)) (tree_nodes w)"
  have d: "distinct ?rs" using assms(1) by simp
  have e: "\<And>n. n \<in> set ?rs \<Longrightarrow> prefetch_event (heap w n) \<noteq> None"
    using assms(2) by simp
  have m: "r \<in> set ?rs" using assms(3,4) by simp
  from tick_loop_commits [OF d e, of query]
  have ok: "fst (tick_loop query ?rs w) = None"
    and at: "heap (snd (tick_loop query ?rs w)) r =
      (if query (the (prefetch_event (heap w r))) then commit_node (heap w r) else heap w r)"
    using m by blast+
  have c: "commit_node (heap w r) =
    (heap w r)\<lparr>node_value := pending_gpu_indices (heap w r),
               is_prefetching := False, pending_gpu_indices := None\<rparr>"
    by (simp add: commit_node_def)
  show ?thesis
    using ok at c assms(5) by (simp add: tick_def)
qed

theorem tick_commits_completed_witness:
  "host_value (heap started_world 1) = Some [5, 6]
   \<and> pending_gpu_indices (heap started_world 1) = Some [20, 21]
   \<and> fst (tick (\<lambda>e. False) started_world) = None
   \<and> heap (snd (tick (\<lambda>e. False) started_world)) 1 = heap started_world 1
   \<and> fst (tick (\<lambda>e. True) started_world) = None
   \<and> node_value (heap (snd (tick (\<lambda>e. True) started_world)) 1) = Some [20, 21]
   \<and> pending_gpu_indices (heap (snd (tick (\<lambda>e. True) started_world)) 1) = None
   \<and> is_prefetching (heap (snd (tick (\<lambda>e. True) started_world)) 1) = False"
proof -
  have d: "distinct (tree_nodes started_world)"
    by (simp add: started_world_fields)
  have e: "\<forall>n\<in>set (tree_nodes started_world).
      is_prefetching (heap started_world n) \<longrightarrow> prefetch_event (heap started_world n) \<noteq> None"
    by (simp add: started_world_fields ex_defs)
  have m: "1 \<in> set (tree_nodes started_world)"
    by (simp add: started_world_fields)
  have p: "is_prefetching (heap started_world 1)"
    by (simp add: started_world_fields ex_defs)
  have v: "prefetch_event (heap started_world 1) = Some 0"
    by (simp add: started_world_fields ex_defs)
  have f: "host_value (heap started_world 1) = Some [5, 6]
      \<and> pending_gpu_indices (heap started_world 1) = Some [20, 21]"
    by (simp add: started_world_fields ex_defs)
  from tick_commits_completed [OF d e m p v, of "\<lambda>e. False"]
    tick_commits_completed [OF d e m p v, of "\<lambda>e. True"] f
  show ?thesis by simp
qed

text \<open>
  C3. For a node that is host resident (no value, a host list, not prefetching), when the
  allocator's reservation fails, \<open>request_prefetch\<close> returns and changes no node:
  the store is as before, in particular the node's host list, value and prefetching flag.
  All that has happened is the call of the allocator.
\<close>

theorem request_prefetch_alloc_failure:
  assumes "node_value (heap w r) = None"
    and "host_value (heap w r) = Some hv"
    and "\<not> is_prefetching (heap w r)"
    and "fst (alloc_gpu (mem w) (length hv)) = None"
  shows "request_prefetch alloc_gpu pm r w =
           w\<lparr>mem := snd (alloc_gpu (mem w) (length hv)), trace := trace w @ [AllocGpu (length hv)]\<rparr>
         \<and> heap (request_prefetch alloc_gpu pm r w) = heap w
         \<and> host_value (heap (request_prefetch alloc_gpu pm r w) r) = host_value (heap w r)
         \<and> node_value (heap (request_prefetch alloc_gpu pm r w) r) = node_value (heap w r)
         \<and> is_prefetching (heap (request_prefetch alloc_gpu pm r w) r) = is_prefetching (heap w r)"
  using assms by (simp add: request_prefetch_def Let_def)

theorem request_prefetch_alloc_failure_witness:
  "node_value (heap full_world 1) = None
   \<and> host_value (heap full_world 1) = Some [5, 6]
   \<and> \<not> is_prefetching (heap full_world 1)
   \<and> fst (free_list_alloc (mem full_world) 2) = None
   \<and> heap (request_prefetch free_list_alloc ex_pm 1 full_world) = heap full_world
   \<and> trace (request_prefetch free_list_alloc ex_pm 1 full_world) = [AllocGpu 2]"
proof -
  have a: "node_value (heap full_world 1) = None"
    and b: "host_value (heap full_world 1) = Some [5, 6]"
    and c: "\<not> is_prefetching (heap full_world 1)"
    by (simp_all add: ex_defs)
  have d: "fst (free_list_alloc (mem full_world) (length [5, 6 :: int])) = None"
    by (simp add: ex_defs)
  have d2: "fst (free_list_alloc (mem full_world) 2) = None"
    by (simp add: ex_defs)
  have t: "trace full_world = []" by (simp add: ex_defs)
  from request_prefetch_alloc_failure
    [where alloc_gpu = free_list_alloc and pm = ex_pm, OF a b c d] a b c d2 t
  show ?thesis by simp
qed

text \<open>
  C4. \<open>request_prefetch\<close> returns the world it was given (no node changed, no
  call of the allocator, nothing added to the trace) whenever the node has a value, or
  has no host list, or is prefetching already. In particular a second call on a node
  that the first call made prefetching changes nothing.
\<close>

theorem request_prefetch_noop:
  "(node_value (heap w r) \<noteq> None \<or> host_value (heap w r) = None \<or> is_prefetching (heap w r)
      \<longrightarrow> request_prefetch alloc_gpu pm r w = w)
   \<and> (is_prefetching (heap (request_prefetch alloc_gpu pm r w) r)
      \<longrightarrow> request_prefetch alloc_gpu pm r (request_prefetch alloc_gpu pm r w) =
           request_prefetch alloc_gpu pm r w)"
proof -
  have a: "\<And>w :: 'a world. node_value (heap w r) \<noteq> None \<or> host_value (heap w r) = None \<or> is_prefetching (heap w r)
      \<Longrightarrow> request_prefetch alloc_gpu pm r w = w"
    by (auto simp: request_prefetch_def split: option.splits)
  show ?thesis using a [of w] a [of "request_prefetch alloc_gpu pm r w"] by blast
qed

theorem request_prefetch_noop_witness:
  "node_value (heap ex_world 3) = Some [7, 8]
   \<and> request_prefetch free_list_alloc ex_pm 3 ex_world = ex_world
   \<and> host_value (heap ex_world 0) = None
   \<and> request_prefetch free_list_alloc ex_pm 0 ex_world = ex_world
   \<and> is_prefetching (heap (request_prefetch free_list_alloc ex_pm 1 ex_world) 1)
   \<and> request_prefetch free_list_alloc ex_pm 1 (request_prefetch free_list_alloc ex_pm 1 ex_world)
       = request_prefetch free_list_alloc ex_pm 1 ex_world"
proof -
  have a: "node_value (heap ex_world 3) = Some [7, 8]"
    and b: "host_value (heap ex_world 0) = None"
    by (simp_all add: ex_defs)
  have c: "is_prefetching (heap (request_prefetch free_list_alloc ex_pm 1 ex_world) 1)"
    using started_world_fields(1) by (simp add: started_world_def)
  from request_prefetch_noop [of ex_world 3 free_list_alloc ex_pm]
    request_prefetch_noop [of ex_world 0 free_list_alloc ex_pm]
    request_prefetch_noop [of ex_world 1 free_list_alloc ex_pm] a b c
  show ?thesis by simp
qed

text \<open>
  C5. For a host-resident node, when the reservation succeeds, \<open>request_prefetch\<close>
  of a manager made by \<open>__init__\<close> asks the allocator for exactly
  \<open>len(host_value)\<close> slots, then enqueues the copy of the host slots into the
  reserved slots on the manager's own stream, which is not the default stream on which
  computation runs, then records a fresh event on that stream; the node is prefetching,
  its pending indices are the reserved ones and the event is stored on the node. The
  current stream is the same after the call as before, and no other node changes.
\<close>

theorem request_prefetch_starts_transfer:
  assumes "node_value (heap w r) = None"
    and "host_value (heap w r) = Some hv"
    and "\<not> is_prefetching (heap w r)"
    and "fst (alloc_gpu (mem w) (length hv)) = Some gpu_indices"
    and "pm = fst (PrefetchManager_init w0)"
  shows "trace (request_prefetch alloc_gpu pm r w) =
           trace w @ [AllocGpu (length hv),
                      CopyFromCpu (pm_stream pm) hv gpu_indices,
                      EventRecord (next_event w) (pm_stream pm)]
         \<and> pm_stream pm \<noteq> DefaultStream
         \<and> heap (request_prefetch alloc_gpu pm r w) =
             (heap w)(r := (heap w r)\<lparr>is_prefetching := True,
                                     pending_gpu_indices := Some gpu_indices,
                                     prefetch_event := Some (next_event w)\<rparr>)
         \<and> mem (request_prefetch alloc_gpu pm r w) = snd (alloc_gpu (mem w) (length hv))
         \<and> current_stream (request_prefetch alloc_gpu pm r w) = current_stream w
         \<and> next_event (request_prefetch alloc_gpu pm r w) = Suc (next_event w)
         \<and> tree_nodes (request_prefetch alloc_gpu pm r w) = tree_nodes w"
  using assms by (simp add: request_prefetch_def Let_def PrefetchManager_init_def)

theorem request_prefetch_starts_transfer_witness:
  "node_value (heap ex_world 1) = None
   \<and> host_value (heap ex_world 1) = Some [5, 6]
   \<and> \<not> is_prefetching (heap ex_world 1)
   \<and> fst (free_list_alloc (mem ex_world) 2) = Some [20, 21]
   \<and> pm_stream ex_pm = Stream 0
   \<and> trace (request_prefetch free_list_alloc ex_pm 1 ex_world) =
       [AllocGpu 2, CopyFromCpu (Stream 0) [5, 6] [20, 21], EventRecord 0 (Stream 0)]
   \<and> is_prefetching (heap (request_prefetch free_list_alloc ex_pm 1 ex_world) 1)
   \<and> pending_gpu_indices (heap (request_prefetch free_list_alloc ex_pm 1 ex_world) 1) = Some [20, 21]
   \<and> prefetch_event (heap (request_prefetch free_list_alloc ex_pm 1 ex_world) 1) = Some 0"
proof -
  have a: "node_value (heap ex_world 1) = None"
    and b: "host_value (heap ex_world 1) = Some [5, 6]"
    and c: "\<not> is_prefetching (heap ex_world 1)"
    by (simp_all add: ex_defs)
  have d: "fst (free_list_alloc (mem ex_world) (length [5, 6 :: int])) = Some [20, 21]"
    by (simp add: ex_defs)
  have d2: "fst (free_list_alloc (mem ex_world) 2) = Some [20, 21]"
    by (simp add: ex_defs)
  have e: "ex_pm = fst (PrefetchManager_init boot_world)"
    by (simp add: ex_pm_def)
  have s: "pm_stream ex_pm = Stream 0 \<and> trace ex_world = [] \<and> next_event ex_world = 0"
    by (simp add: ex_defs)
  from request_prefetch_starts_transfer
    [where alloc_gpu = free_list_alloc, OF a b c d e] a b c d2 s
  show ?thesis by simp
qed

section \<open>Properties of the cache time series\<close>

lemma snapshot_to_dict_total:
  "\<exists>d. CacheSnapshot_to_dict s = Inr d
     \<and> map_of d ''utilization'' =
         Some (PyFloat (if 0 < pool_size s
                        then real_of_int (total_tokens s) / real_of_int (pool_size s) else 0))
     \<and> map_of d ''miss_tokens'' = Some (PyInt (requested_tokens s - hit_tokens s))"
  by (cases "node_stats s")
    (simp_all add: CacheSnapshot_to_dict_def py_truediv_def Let_def)

lemma stats_dict_total:
  "\<exists>d. get_stats_dict t = Inr d
     \<and> map_of d ''utilization'' =
         Some (PyFloat (if tracker_snapshots t \<noteq> [] \<and> 0 < pool_size (last (tracker_snapshots t))
                        then real_of_int (total_tokens (last (tracker_snapshots t)))
                             / real_of_int (pool_size (last (tracker_snapshots t)))
                        else 0))
     \<and> map_of d ''total_miss_tokens'' =
         Some (PyInt (tracker_requested_tokens t - tracker_hit_tokens t))"
  by (cases "node_stats (last (tracker_snapshots t))")
    (simp_all add: get_stats_dict_def py_truediv_def Let_def)

lemmas metrics_ex_defs = snapshot_empty_pool_def snapshot_quarter_def fresh_tracker_def
  busy_tracker_def record_match_def

text \<open>
  C10. Neither \<open>CacheSnapshot.to_dict\<close> nor
  \<open>CacheTimeSeriesTracker.get_stats_dict\<close> raises \<open>ZeroDivisionError\<close>:
  both return a dictionary. Its utilization is the total token count divided by the pool
  size when the pool size is positive, and 0.0 otherwise (for the tracker: also when
  there is no snapshot); the miss tokens are the requested tokens minus the hit tokens.
\<close>

theorem utilization_guarded:
  "(\<exists>d. CacheSnapshot_to_dict s = Inr d
     \<and> map_of d ''utilization'' =
         Some (PyFloat (if 0 < pool_size s
                        then real_of_int (total_tokens s) / real_of_int (pool_size s) else 0))
     \<and> map_of d ''miss_tokens'' = Some (PyInt (requested_tokens s - hit_tokens s)))
   \<and> (\<exists>d. get_stats_dict t = Inr d
     \<and> map_of d ''utilization'' =
         Some (PyFloat (if tracker_snapshots t \<noteq> [] \<and> 0 < pool_size (last (tracker_snapshots t))
                        then real_of_int (total_tokens (last (tracker_snapshots t)))
                             / real_of_int (pool_size (last (tracker_snapshots t)))
                        else 0))
     \<and> map_of d ''total_miss_tokens'' =
         Some (PyInt (tracker_requested_tokens t - tracker_hit_tokens t)))"
  using snapshot_to_dict_total [of s] stats_dict_total [of t] by simp

theorem utilization_guarded_witness:
  "(\<exists>d. CacheSnapshot_to_dict snapshot_empty_pool = Inr d
      \<and> map_of d ''utilization'' = Some (PyFloat 0)
      \<and> map_of d ''miss_tokens'' = Some (PyInt 5))
   \<and> (\<exists>d. CacheSnapshot_to_dict snapshot_quarter = Inr d
      \<and> map_of d ''utilization'' = Some (PyFloat (1 / 4))
      \<and> map_of d ''miss_tokens'' = Some (PyInt 10))
   \<and> (\<exists>d. get_stats_dict fresh_tracker = Inr d
      \<and> map_of d ''utilization'' = Some (PyFloat 0)
      \<and> map_of d ''total_miss_tokens'' = Some (PyInt 0))
   \<and> (\<exists>d. get_stats_dict busy_tracker = Inr d
      \<and> map_of d ''utilization'' = Some (PyFloat (1 / 4))
      \<and> map_of d ''total_miss_tokens'' = Some (PyInt 10))"
  using utilization_guarded [of snapshot_empty_pool fresh_tracker]
    utilization_guarded [of snapshot_quarter busy_tracker]
  by (simp add: metrics_ex_defs)

end
